theory Spec2Isabelle
  imports Main
begin

section \<open>JavaScript numbers\<close>

text \<open>
  The script keeps its operands in JavaScript Numbers, which are IEEE 754 binary64 values.
  \<open>Fin m t\<close> is the finite double \<open>m * 2 ^ t\<close> in the format's own normal form:
  \<open>\<bar>m\<bar> < 2 ^ 53\<close>, \<open>- 1074 \<le> t \<le> 971\<close>, and \<open>2 ^ 52 \<le> \<bar>m\<bar>\<close> unless \<open>t = - 1074\<close>
  (subnormals, and zero as \<open>Fin 0 (- 1074)\<close>). The two zeros are one value here: the script
  never divides by a zero (\<open>compute\<close> tests the divisor, \<open>percent\<close> divides by 100) and every
  other operation it uses (\<open>===\<close>, \<open><\<close>, \<open>Math.abs\<close>, \<open>String\<close>, \<open>toPrecision\<close>) treats
  \<open>-0\<close> as \<open>+0\<close>.
\<close>

datatype jsnum = NaN | PosInf | NegInf | Fin int int

function bitlen :: "int \<Rightarrow> int" where
  "bitlen n = (if n \<le> 0 then 0 else 1 + bitlen (n div 2))"
  by pat_completeness auto
termination by (relation "measure nat") auto

declare bitlen.simps [simp del]

definition pow2 :: "int \<Rightarrow> int" where
  "pow2 k = 2 ^ nat k"

definition pow10 :: "int \<Rightarrow> int" where
  "pow10 k = 10 ^ nat k"

definition round_half_even :: "int \<Rightarrow> int \<Rightarrow> int" where
  "round_half_even num den =
     (let d = num div den; r = num mod den
      in if 2 * r < den then d
         else if den < 2 * r then d + 1
         else if even d then d else d + 1)"

text \<open>
  \<open>round_pos p q s\<close> is the double nearest to \<open>(p / q) * 2 ^ s\<close> for \<open>0 < p\<close> and \<open>0 < q\<close>,
  ties to the even mantissa, infinity on overflow (roundTiesToEven of binary64).
\<close>

definition round_pos :: "int \<Rightarrow> int \<Rightarrow> int \<Rightarrow> jsnum" where
  "round_pos p q s =
     (let e0 = bitlen p - bitlen q;
          ge = (if 0 \<le> e0 then q * pow2 e0 \<le> p else q \<le> p * pow2 (- e0));
          ex = (if ge then e0 else e0 - 1) + s;
          t = max (ex - 52) (- 1074);
          m = (if t \<le> s then round_half_even (p * pow2 (s - t)) q
               else round_half_even p (q * pow2 (t - s)));
          m' = (if m = pow2 53 then pow2 52 else m);
          t' = (if m = pow2 53 then t + 1 else t)
      in if 971 < t' then PosInf else Fin m' t')"

fun js_neg :: "jsnum \<Rightarrow> jsnum" where
  "js_neg NaN = NaN"
| "js_neg PosInf = NegInf"
| "js_neg NegInf = PosInf"
| "js_neg (Fin m t) = Fin (- m) t"

text \<open>\<open>round_frac p q s\<close> rounds \<open>(p / q) * 2 ^ s\<close> for any sign of \<open>p\<close> and \<open>q\<close>, \<open>q \<noteq> 0\<close>.\<close>

definition round_frac :: "int \<Rightarrow> int \<Rightarrow> int \<Rightarrow> jsnum" where
  "round_frac p q s =
     (if p = 0 then Fin 0 (- 1074)
      else if (0 < p) = (0 < q) then round_pos \<bar>p\<bar> \<bar>q\<bar> s
      else js_neg (round_pos \<bar>p\<bar> \<bar>q\<bar> s))"

text \<open>Decimal digits of a non-negative integer.\<close>

definition digit_char :: "int \<Rightarrow> char" where
  "digit_char d = ''0123456789'' ! nat d"

function digits_of :: "int \<Rightarrow> string" where
  "digits_of n = (if n < 10 then [digit_char n] else digits_of (n div 10) @ [digit_char (n mod 10)])"
  by pat_completeness auto
termination by (relation "measure nat") auto

declare digits_of.simps [simp del]

definition ndigits :: "int \<Rightarrow> int" where
  "ndigits n = int (length (digits_of n))"

text \<open>The value \<open>s * 10 ^ e\<close> of a decimal literal, rounded. Beyond the exponents of the
  format the result does not depend on the digits: for \<open>1 \<le> \<bar>s\<bar>\<close> and \<open>400 < e\<close> the value
  is above every double, and for \<open>e < - 400\<close> and \<open>\<bar>s\<bar>\<close> of \<open>d\<close> digits it is below
  \<open>10 ^ (e + d)\<close>, which rounds to zero when \<open>e + d < - 330\<close>.\<close>

definition dec_to_double :: "int \<Rightarrow> int \<Rightarrow> jsnum" where
  "dec_to_double s e =
     (if s = 0 then Fin 0 (- 1074)
      else if 400 < e then (if 0 < s then PosInf else NegInf)
      else if 0 \<le> e then round_frac (s * pow10 e) 1 0
      else if - 400 \<le> e then round_frac s (pow10 (- e)) 0
      else if e + ndigits \<bar>s\<bar> < - 330 then Fin 0 (- 1074)
      else round_frac s (pow10 (- e)) 0)"

fun js_isFinite :: "jsnum \<Rightarrow> bool" where
  "js_isFinite (Fin m t) = True"
| "js_isFinite _ = False"

fun js_abs :: "jsnum \<Rightarrow> jsnum" where
  "js_abs NaN = NaN"
| "js_abs PosInf = PosInf"
| "js_abs NegInf = PosInf"
| "js_abs (Fin m t) = Fin \<bar>m\<bar> t"

text \<open>The arithmetic of the script: exact result, rounded once. It is applied to finite
  operands only (\<open>compute\<close> and \<open>percent\<close> test them first); the other cases follow IEEE 754.\<close>

fun js_add :: "jsnum \<Rightarrow> jsnum \<Rightarrow> jsnum" where
  "js_add (Fin m1 t1) (Fin m2 t2) =
     (let t = min t1 t2 in round_frac (m1 * pow2 (t1 - t) + m2 * pow2 (t2 - t)) 1 t)"
| "js_add NaN _ = NaN"
| "js_add _ NaN = NaN"
| "js_add PosInf NegInf = NaN"
| "js_add NegInf PosInf = NaN"
| "js_add PosInf _ = PosInf"
| "js_add NegInf _ = NegInf"
| "js_add _ PosInf = PosInf"
| "js_add _ NegInf = NegInf"

definition js_sub :: "jsnum \<Rightarrow> jsnum \<Rightarrow> jsnum" where
  "js_sub x y = js_add x (js_neg y)"

fun js_sign_neg :: "jsnum \<Rightarrow> bool" where
  "js_sign_neg NegInf = True"
| "js_sign_neg (Fin m t) = (m < 0)"
| "js_sign_neg _ = False"

fun js_is_zero :: "jsnum \<Rightarrow> bool" where
  "js_is_zero (Fin m t) = (m = 0)"
| "js_is_zero _ = False"

fun js_mul :: "jsnum \<Rightarrow> jsnum \<Rightarrow> jsnum" where
  "js_mul (Fin m1 t1) (Fin m2 t2) = round_frac (m1 * m2) 1 (t1 + t2)"
| "js_mul NaN _ = NaN"
| "js_mul _ NaN = NaN"
| "js_mul x y = (if js_is_zero x \<or> js_is_zero y then NaN
                 else if js_sign_neg x = js_sign_neg y then PosInf else NegInf)"

text \<open>Division by a nonzero finite divisor is all the script performs. With the two zeros
  identified the sign of \<open>x / 0\<close> is not determined: for a finite \<open>x\<close> that case is left as
  \<open>NaN\<close>, for an infinite \<open>x\<close> the zero counts as positive. No theorem below depends on it.\<close>

fun js_div :: "jsnum \<Rightarrow> jsnum \<Rightarrow> jsnum" where
  "js_div (Fin m1 t1) (Fin m2 t2) = (if m2 = 0 then NaN else round_frac m1 m2 (t1 - t2))"
| "js_div NaN _ = NaN"
| "js_div _ NaN = NaN"
| "js_div (Fin m1 t1) _ = Fin 0 (- 1074)"
| "js_div x (Fin m2 t2) = (if js_sign_neg x = (m2 < 0) then PosInf else NegInf)"
| "js_div _ _ = NaN"

text \<open>\<open>x < y\<close> on Numbers: false when either side is \<open>NaN\<close>.\<close>

fun js_less :: "jsnum \<Rightarrow> jsnum \<Rightarrow> bool" where
  "js_less (Fin m1 t1) (Fin m2 t2) =
     (let t = min t1 t2 in m1 * pow2 (t1 - t) < m2 * pow2 (t2 - t))"
| "js_less NaN _ = False"
| "js_less _ NaN = False"
| "js_less NegInf NegInf = False"
| "js_less NegInf _ = True"
| "js_less PosInf PosInf = False"
| "js_less _ PosInf = True"
| "js_less _ _ = False"

section \<open>Numbers to strings\<close>

text \<open>The \<open>n\<close> with \<open>10 ^ (n - 1) \<le> P / Q < 10 ^ n\<close>, for \<open>0 < P\<close> and \<open>0 < Q\<close>: the number of
  digits of the integer part when there is one, else one minus the number of digits of
  \<open>\<lceil>Q / P\<rceil> - 1\<close>.\<close>

definition dec_exp :: "int \<Rightarrow> int \<Rightarrow> int" where
  "dec_exp P Q = (if Q \<le> P then ndigits (P div Q) else 1 - ndigits ((Q - 1) div P))"

text \<open>The magnitude of a finite double as a fraction.\<close>

definition mag_num :: "int \<Rightarrow> int \<Rightarrow> int" where
  "mag_num m t = (if 0 \<le> t then \<bar>m\<bar> * pow2 t else \<bar>m\<bar>)"

definition mag_den :: "int \<Rightarrow> int \<Rightarrow> int" where
  "mag_den m t = (if 0 \<le> t then 1 else pow2 (- t))"

text \<open>
  \<open>Number::toString\<close> (ECMA-262): the digits \<open>s\<close> (\<open>k\<close> of them, \<open>k\<close> as small as possible)
  and the exponent \<open>n\<close> with \<open>s * 10 ^ (n - k)\<close> rounding to the double; among several \<open>s\<close>
  the closest to the double, the even one on a tie. For each \<open>k\<close> only the two integers
  around \<open>x * 10 ^ (k - n)\<close> can qualify. Seventeen digits always do.
\<close>

definition try_digits :: "int \<Rightarrow> int \<Rightarrow> int \<Rightarrow> jsnum \<Rightarrow> int \<Rightarrow> int option" where
  "try_digits P Q n x k =
     (let num = (if n \<le> k then P * pow10 (k - n) else P);
          den = (if n \<le> k then Q else Q * pow10 (n - k));
          lo = num div den; r = num mod den; hi = lo + 1;
          ok_lo = (dec_to_double lo (n - k) = x);
          ok_hi = (r \<noteq> 0 \<and> dec_to_double hi (n - k) = x)
      in if ok_lo \<and> ok_hi
         then Some (if 2 * r < den then lo else if den < 2 * r then hi
                    else if even lo then lo else hi)
         else if ok_lo then Some lo
         else if ok_hi then Some hi
         else None)"

fun shortest :: "int \<Rightarrow> int \<Rightarrow> int \<Rightarrow> jsnum \<Rightarrow> int list \<Rightarrow> int \<times> int" where
  "shortest P Q n x [] = (round_half_even (if n \<le> 17 then P * pow10 (17 - n) else P)
                            (if n \<le> 17 then Q else Q * pow10 (n - 17)), 17)"
| "shortest P Q n x (k # ks) =
     (case try_digits P Q n x k of Some s \<Rightarrow> (s, k) | None \<Rightarrow> shortest P Q n x ks)"

definition sign_str :: "int \<Rightarrow> string" where
  "sign_str e = (if 0 \<le> e then ''+'' else ''-'')"

function zeros :: "int \<Rightarrow> string" where
  "zeros n = (if n \<le> 0 then [] else CHR ''0'' # zeros (n - 1))"
  by pat_completeness auto
termination by (relation "measure nat") auto

declare zeros.simps [simp del]

definition pos_to_string :: "int \<Rightarrow> int \<Rightarrow> string" where
  "pos_to_string m t =
     (let P = mag_num m t; Q = mag_den m t; n0 = dec_exp P Q;
          sk = shortest P Q n0 (Fin \<bar>m\<bar> t)
                 [1, 2, 3, 4, 5, 6, 7, 8, 9, 10, 11, 12, 13, 14, 15, 16];
          s = fst sk; k0 = snd sk;
          ds = (if s = pow10 k0 then ''1'' else digits_of s);
          n = (if s = pow10 k0 then n0 + 1 else n0);
          k = int (length ds)
      in if k \<le> n \<and> n \<le> 21 then ds @ zeros (n - k)
         else if 0 < n \<and> n \<le> 21 then take (nat n) ds @ ''.'' @ drop (nat n) ds
         else if - 6 < n \<and> n \<le> 0 then ''0.'' @ zeros (- n) @ ds
         else if k = 1 then ds @ ''e'' @ sign_str (n - 1) @ digits_of \<bar>n - 1\<bar>
         else take 1 ds @ ''.'' @ drop 1 ds @ ''e'' @ sign_str (n - 1) @ digits_of \<bar>n - 1\<bar>)"

fun js_String :: "jsnum \<Rightarrow> string" where
  "js_String NaN = ''NaN''"
| "js_String PosInf = ''Infinity''"
| "js_String NegInf = ''-Infinity''"
| "js_String (Fin m t) =
     (if m = 0 then ''0'' else (if m < 0 then ''-'' else []) @ pos_to_string m t)"

text \<open>
  The integer \<open>n\<close> of \<open>d\<close> digits and the exponent \<open>e\<close> with \<open>n * 10 ^ (e - d + 1)\<close> closest to
  \<open>P / Q\<close>, the larger \<open>n\<close> on a tie: what \<open>toPrecision\<close> and \<open>toExponential\<close> print.
\<close>

definition nearest_digits :: "int \<Rightarrow> int \<Rightarrow> int \<Rightarrow> int \<times> int" where
  "nearest_digits P Q d =
     (let e = dec_exp P Q - 1;
          num = (if e \<le> d - 1 then P * pow10 (d - 1 - e) else P);
          den = (if e \<le> d - 1 then Q else Q * pow10 (e - (d - 1)));
          n = (2 * num + den) div (2 * den)
      in if n = pow10 d then (pow10 (d - 1), e + 1) else (n, e))"

definition exp_suffix :: "int \<Rightarrow> string" where
  "exp_suffix e = ''e'' @ sign_str e @ digits_of \<bar>e\<bar>"

text \<open>\<open>Number.prototype.toPrecision(p)\<close> for \<open>1 \<le> p \<le> 100\<close>.\<close>

fun js_toPrecision :: "jsnum \<Rightarrow> int \<Rightarrow> string" where
  "js_toPrecision (Fin m t) p =
     (let sg = (if m < 0 then ''-'' else []);
          ne = (if m = 0 then (0, 0) else nearest_digits (mag_num m t) (mag_den m t) p);
          ms = (if m = 0 then zeros p else digits_of (fst ne));
          e = snd ne
      in if e < - 6 \<or> p \<le> e
         then sg @ (if p \<noteq> 1 then take 1 ms @ ''.'' @ drop 1 ms else ms) @ exp_suffix e
         else if e = p - 1 then sg @ ms
         else if 0 \<le> e then sg @ take (nat (e + 1)) ms @ ''.'' @ drop (nat (e + 1)) ms
         else sg @ ''0.'' @ zeros (- (e + 1)) @ ms)"
| "js_toPrecision x p = js_String x"

text \<open>\<open>Number.prototype.toExponential(f)\<close> for \<open>0 \<le> f \<le> 100\<close>.\<close>

fun js_toExponential :: "jsnum \<Rightarrow> int \<Rightarrow> string" where
  "js_toExponential (Fin m t) f =
     (let sg = (if m < 0 then ''-'' else []);
          ne = (if m = 0 then (0, 0) else nearest_digits (mag_num m t) (mag_den m t) (f + 1));
          ms = (if m = 0 then zeros (f + 1) else digits_of (fst ne));
          e = snd ne
      in sg @ (if f \<noteq> 0 then take 1 ms @ ''.'' @ drop 1 ms else ms) @ exp_suffix e)"
| "js_toExponential x f = js_String x"

section \<open>Strings to numbers\<close>

definition is_digit :: "char \<Rightarrow> bool" where
  "is_digit c = (c \<in> set ''0123456789'')"

definition digit_val :: "char \<Rightarrow> int" where
  "digit_val c = of_char c - 48"

definition dec_value :: "string \<Rightarrow> int" where
  "dec_value ds = foldl (\<lambda>a c. 10 * a + digit_val c) 0 ds"

text \<open>White space of \<open>StringToNumber\<close>, as far as 8-bit characters have it: tab, line feed,
  vertical tab, form feed, carriage return and space.\<close>

definition is_ws :: "char \<Rightarrow> bool" where
  "is_ws c = (c \<in> set [CHR 0x09, CHR 0x0A, CHR 0x0B, CHR 0x0C, CHR 0x0D, CHR 0x20])"

definition trim_left :: "string \<Rightarrow> string" where
  "trim_left s = dropWhile is_ws s"

definition trim :: "string \<Rightarrow> string" where
  "trim s = rev (dropWhile is_ws (rev (dropWhile is_ws s)))"

text \<open>An \<open>ExponentPart\<close> at the head of \<open>s\<close>: its value and what follows it; exponent 0 and
  \<open>s\<close> itself when there is none.\<close>

fun parse_exponent :: "string \<Rightarrow> int \<times> string" where
  "parse_exponent [] = (0, [])"
| "parse_exponent (c # r) =
     (if c = CHR ''e'' \<or> c = CHR ''E''
      then (let neg = (take 1 r = ''-'');
                r1 = (if take 1 r = ''+'' \<or> take 1 r = ''-'' then drop 1 r else r);
                ds = takeWhile is_digit r1
            in if ds = [] then (0, c # r)
               else ((if neg then - dec_value ds else dec_value ds), dropWhile is_digit r1))
      else (0, c # r))"

text \<open>The longest \<open>StrUnsignedDecimalLiteral\<close> at the head of \<open>s\<close>: its value and what
  follows it.\<close>

definition parse_unsigned :: "string \<Rightarrow> (jsnum \<times> string) option" where
  "parse_unsigned s =
     (if take 8 s = ''Infinity'' then Some (PosInf, drop 8 s)
      else
        let ip = takeWhile is_digit s; r1 = dropWhile is_digit s;
            dot = (take 1 r1 = ''.'');
            fp = (if dot then takeWhile is_digit (drop 1 r1) else []);
            r2 = (if dot then dropWhile is_digit (drop 1 r1) else r1)
        in if ip = [] \<and> fp = [] then None
           else let er = parse_exponent r2
                in Some (dec_to_double (dec_value (ip @ fp)) (fst er - int (length fp)), snd er))"

definition parse_signed :: "string \<Rightarrow> (jsnum \<times> string) option" where
  "parse_signed s =
     (if take 1 s = ''-'' then map_option (\<lambda>(v, rest). (js_neg v, rest)) (parse_unsigned (drop 1 s))
      else if take 1 s = ''+'' then parse_unsigned (drop 1 s)
      else parse_unsigned s)"

text \<open>\<open>0x\<close>, \<open>0o\<close> and \<open>0b\<close> literals (\<open>NonDecimalIntegerLiteral\<close>), which take no sign.\<close>

definition radix_digit :: "char \<Rightarrow> int option" where
  "radix_digit c =
     (if is_digit c then Some (digit_val c)
      else if c \<in> set ''abcdef'' then Some (of_char c - 87)
      else if c \<in> set ''ABCDEF'' then Some (of_char c - 55)
      else None)"

definition parse_radix :: "int \<Rightarrow> string \<Rightarrow> jsnum option" where
  "parse_radix b ds =
     (if ds \<noteq> [] \<and> list_all (\<lambda>c. case radix_digit c of Some d \<Rightarrow> d < b | None \<Rightarrow> False) ds
      then Some (round_frac (foldl (\<lambda>a c. b * a + the (radix_digit c)) 0 ds) 1 0)
      else None)"

definition parse_non_decimal :: "string \<Rightarrow> jsnum option" where
  "parse_non_decimal s =
     (if take 2 s = ''0x'' \<or> take 2 s = ''0X'' then parse_radix 16 (drop 2 s)
      else if take 2 s = ''0o'' \<or> take 2 s = ''0O'' then parse_radix 8 (drop 2 s)
      else if take 2 s = ''0b'' \<or> take 2 s = ''0B'' then parse_radix 2 (drop 2 s)
      else None)"

text \<open>\<open>Number(s)\<close> of a string (\<open>StringToNumber\<close>): the whole trimmed string must be a
  numeric literal, the empty string is 0, anything else is \<open>NaN\<close>.\<close>

definition js_Number :: "string \<Rightarrow> jsnum" where
  "js_Number s =
     (let t = trim s
      in if t = [] then Fin 0 (- 1074)
         else case parse_non_decimal t of
                Some v \<Rightarrow> v
              | None \<Rightarrow>
                  (case parse_signed t of
                     Some (v, rest) \<Rightarrow> if rest = [] then v else NaN
                   | None \<Rightarrow> NaN))"

text \<open>\<open>parseFloat(s)\<close>: the longest decimal literal at the head of the left-trimmed string.\<close>

definition js_parseFloat :: "string \<Rightarrow> jsnum" where
  "js_parseFloat s = (case parse_signed (trim_left s) of Some (v, rest) \<Rightarrow> v | None \<Rightarrow> NaN)"

section \<open>The calculator state\<close>

text \<open>The four variables of \<open>script.js\<close>: \<open>accumulator\<close> is a Number or \<open>null\<close>, \<open>pendingOp\<close> a
  string or \<open>null\<close>; \<open>None\<close> is \<open>null\<close>.\<close>

record calc =
  currentInput :: string
  accumulator :: "jsnum option"
  pendingOp :: "string option"
  lastPressedEquals :: bool

definition MAX_DIGITS :: nat where
  "MAX_DIGITS = 15"

definition initial :: calc where
  "initial = \<lparr>currentInput = ''0'', accumulator = None, pendingOp = None,
              lastPressedEquals = False\<rparr>"

definition num_of_int :: "int \<Rightarrow> jsnum" where
  "num_of_int i = round_frac i 1 0"

text \<open>\<open>updateDisplay\<close> returns the state and the text it writes to the display element.\<close>

definition updateDisplay :: "calc \<Rightarrow> calc \<times> string" where
  "updateDisplay s =
     (if currentInput s = ''ERROR'' then (s, ''Error'')
      else
        let text = currentInput s
        in if MAX_DIGITS < length text
           then (let n = js_Number text
                 in if \<not> js_isFinite n then (s\<lparr>currentInput := ''ERROR''\<rparr>, ''Error'')
                    else (s, js_String (js_parseFloat (js_toPrecision n (int MAX_DIGITS)))))
           else (s, text))"

definition inputDigit :: "string \<Rightarrow> calc \<Rightarrow> calc" where
  "inputDigit d s =
     (if currentInput s = ''ERROR'' then s
      else
        let s1 = (if lastPressedEquals s
                  then s\<lparr>currentInput := ''0'', lastPressedEquals := False,
                         accumulator := None, pendingOp := None\<rparr>
                  else s)
        in if d = ''.''
           then (if CHR ''.'' \<in> set (currentInput s1) then s1
                 else s1\<lparr>currentInput := currentInput s1 @ ''.''\<rparr>)
           else if currentInput s1 = ''0'' then s1\<lparr>currentInput := d\<rparr>
           else if MAX_DIGITS \<le> length (remove1 CHR ''.'' (currentInput s1)) then s1
           else s1\<lparr>currentInput := currentInput s1 @ d\<rparr>)"

definition clearAll :: "calc \<Rightarrow> calc" where
  "clearAll s = s\<lparr>currentInput := ''0'', accumulator := None, pendingOp := None,
                  lastPressedEquals := False\<rparr>"

definition toggleNegate :: "calc \<Rightarrow> calc" where
  "toggleNegate s =
     (if currentInput s = ''ERROR'' then s
      else if currentInput s = ''0'' then s
      else if take 1 (currentInput s) = ''-'' then s\<lparr>currentInput := drop 1 (currentInput s)\<rparr>
      else s\<lparr>currentInput := ''-'' @ currentInput s\<rparr>)"

definition percent :: "calc \<Rightarrow> calc" where
  "percent s =
     (if currentInput s = ''ERROR'' then s
      else
        let n = js_Number (currentInput s)
        in if \<not> js_isFinite n then s\<lparr>currentInput := ''ERROR''\<rparr>
           else s\<lparr>currentInput := js_String (js_div n (num_of_int 100))\<rparr>)"

text \<open>\<open>compute\<close> returns a Number or \<open>null\<close> (\<open>None\<close>), the divide-by-zero signal.\<close>

definition compute :: "jsnum \<Rightarrow> jsnum \<Rightarrow> string \<Rightarrow> jsnum option" where
  "compute a b op =
     (if \<not> js_isFinite a \<or> \<not> js_isFinite b then Some NaN
      else if op = ''+'' then Some (js_add a b)
      else if op = ''-'' then Some (js_sub a b)
      else if op = ''*'' then Some (js_mul a b)
      else if op = ''/'' then (if js_is_zero b then None else Some (js_div a b))
      else Some b)"

text \<open>The operator symbols a press carries: the four keys of \<open>opMap\<close> (the multiplication
  sign, the division sign, plus, and the minus sign U+2212), or any other string, which
  \<open>opMap[opSymbol] || opSymbol\<close> passes through (a string that names a property every
  object inherits, such as \<open>toString\<close>, is left out: no handler sends one).\<close>

datatype opsym = Times | Divide | Plus | Minus | Other string

definition normalize_op :: "opsym \<Rightarrow> string" where
  "normalize_op opSymbol =
     (case opSymbol of Times \<Rightarrow> ''*'' | Divide \<Rightarrow> ''/'' | Plus \<Rightarrow> ''+'' | Minus \<Rightarrow> ''-''
      | Other s \<Rightarrow> s)"

text \<open>Truthiness of \<open>pendingOp\<close>: neither \<open>null\<close> nor the empty string.\<close>

definition truthy :: "string option \<Rightarrow> bool" where
  "truthy p = (case p of None \<Rightarrow> False | Some x \<Rightarrow> x \<noteq> [])"

definition roundForDisplay :: "jsnum \<Rightarrow> jsnum" where
  "roundForDisplay n =
     (if \<not> js_isFinite n then n
      else
        let a = js_abs n
        in if js_less (dec_to_double 1 12) a
              \<or> (\<not> js_is_zero a \<and> js_less a (dec_to_double 1 (- 12)))
           then js_Number (js_toExponential n 12)
           else js_Number (js_toPrecision n 12))"

definition pressOperator :: "opsym \<Rightarrow> calc \<Rightarrow> calc" where
  "pressOperator opSymbol s =
     (if currentInput s = ''ERROR'' then s
      else
        let op = normalize_op opSymbol;
            inputVal = js_Number (currentInput s);
            finish = (\<lambda>s'. s'\<lparr>pendingOp := Some op, currentInput := ''0'',
                                lastPressedEquals := False\<rparr>)
        in case accumulator s of
             None \<Rightarrow> finish (s\<lparr>accumulator := Some inputVal\<rparr>)
           | Some acc \<Rightarrow>
               if \<not> lastPressedEquals s \<or> truthy (pendingOp s)
               then (case compute acc inputVal
                            (if truthy (pendingOp s) then the (pendingOp s) else op) of
                       None \<Rightarrow>
                         fst (updateDisplay (s\<lparr>currentInput := ''ERROR'', accumulator := None,
                                                pendingOp := None\<rparr>))
                     | Some result \<Rightarrow> finish (s\<lparr>accumulator := Some result\<rparr>))
               else finish s)"

definition pressEquals :: "calc \<Rightarrow> calc" where
  "pressEquals s =
     (if currentInput s = ''ERROR'' then s
      else case pendingOp s of
             None \<Rightarrow> s\<lparr>lastPressedEquals := True\<rparr>
           | Some pop \<Rightarrow>
               let inputVal = js_Number (currentInput s);
                   result = compute (case accumulator s of None \<Rightarrow> num_of_int 0 | Some a \<Rightarrow> a)
                              inputVal pop
               in if result = None \<or> \<not> js_isFinite (the result)
                  then fst (updateDisplay (s\<lparr>currentInput := ''ERROR'', accumulator := None,
                                              pendingOp := None\<rparr>))
                  else s\<lparr>currentInput := js_String (roundForDisplay (the result)),
                         accumulator := None, pendingOp := None, lastPressedEquals := True\<rparr>)"

text \<open>The \<open>Backspace\<close> branch of the \<open>keydown\<close> handler, before its \<open>updateDisplay\<close>.\<close>

definition backspace :: "calc \<Rightarrow> calc" where
  "backspace s =
     (if lastPressedEquals s then clearAll s
      else if length (currentInput s) \<le> 1 then s\<lparr>currentInput := ''0''\<rparr>
      else s\<lparr>currentInput := butlast (currentInput s)\<rparr>)"

section \<open>Commands\<close>

text \<open>What the click and key handlers do: one operation on the state, then \<open>updateDisplay\<close>.
  \<open>exec\<close> gives the state after the handler and the text on the display.\<close>

datatype command =
  Digit char | DecimalPoint | Operator opsym | Equals | Clear | Negate | Percent | Backspace

definition exec :: "command \<Rightarrow> calc \<Rightarrow> calc \<times> string" where
  "exec c s =
     updateDisplay
       (case c of
          Digit d \<Rightarrow> inputDigit [d] s
        | DecimalPoint \<Rightarrow> inputDigit ''.'' s
        | Operator opSymbol \<Rightarrow> pressOperator opSymbol s
        | Equals \<Rightarrow> pressEquals s
        | Clear \<Rightarrow> clearAll s
        | Negate \<Rightarrow> toggleNegate s
        | Percent \<Rightarrow> percent s
        | Backspace \<Rightarrow> backspace s)"

definition step :: "command \<Rightarrow> calc \<Rightarrow> calc" where
  "step c s = fst (exec c s)"

definition run :: "command list \<Rightarrow> calc \<Rightarrow> calc" where
  "run cs s = foldl (\<lambda>st c. step c st) s cs"

definition digits :: "string \<Rightarrow> command list" where
  "digits ds = map (\<lambda>c. if c = CHR ''.'' then DecimalPoint else Digit c) ds"

section \<open>Predicates on states\<close>

text \<open>Accumulator and pending operator are both \<open>null\<close> or both set.\<close>

definition paired :: "calc \<Rightarrow> bool" where
  "paired s = ((accumulator s = None) = (pendingOp s = None))"

text \<open>A state on which a further equals press has nothing to do.\<close>

definition settled :: "calc \<Rightarrow> bool" where
  "settled s = (currentInput s = ''ERROR'' \<or> (pendingOp s = None \<and> lastPressedEquals s))"

text \<open>The digits of a string, sign, point and any other character left out.\<close>

definition digit_count :: "string \<Rightarrow> nat" where
  "digit_count s = length (filter is_digit s)"

text \<open>The bound of \<open>MAX_DIGITS\<close> on the digits of \<open>currentInput\<close>.\<close>

definition within_bound :: "calc \<Rightarrow> bool" where
  "within_bound s = (digit_count (currentInput s) \<le> MAX_DIGITS)"

section \<open>What \<open>updateDisplay\<close> changes\<close>

lemma updateDisplay_accumulator [simp]:
  "accumulator (fst (updateDisplay s)) = accumulator s"
  by (simp add: updateDisplay_def Let_def)

lemma updateDisplay_pendingOp [simp]:
  "pendingOp (fst (updateDisplay s)) = pendingOp s"
  by (simp add: updateDisplay_def Let_def)

lemma updateDisplay_lastPressedEquals [simp]:
  "lastPressedEquals (fst (updateDisplay s)) = lastPressedEquals s"
  by (simp add: updateDisplay_def Let_def)

lemma updateDisplay_currentInput:
  "currentInput (fst (updateDisplay s)) =
     (if currentInput s \<noteq> ''ERROR'' \<and> MAX_DIGITS < length (currentInput s)
         \<and> \<not> js_isFinite (js_Number (currentInput s))
      then ''ERROR'' else currentInput s)"
  by (simp add: updateDisplay_def Let_def)

lemma updateDisplay_error [simp]:
  "currentInput s = ''ERROR'' \<Longrightarrow> updateDisplay s = (s, ''Error'')"
  by (simp add: updateDisplay_def)

lemma updateDisplay_idem:
  "updateDisplay (fst (updateDisplay s)) = updateDisplay s"
  by (simp add: updateDisplay_def Let_def)

section \<open>Accumulator and pending operator\<close>

lemma paired_updateDisplay: "paired (fst (updateDisplay s)) = paired s"
  by (simp add: paired_def)

lemma paired_inputDigit: "paired s \<Longrightarrow> paired (inputDigit d s)"
  by (simp add: paired_def inputDigit_def Let_def)

lemma paired_clearAll: "paired (clearAll s)"
  by (simp add: paired_def clearAll_def)

lemma paired_toggleNegate: "paired s \<Longrightarrow> paired (toggleNegate s)"
  by (simp add: paired_def toggleNegate_def)

lemma paired_percent: "paired s \<Longrightarrow> paired (percent s)"
  by (simp add: paired_def percent_def Let_def)

lemma paired_backspace: "paired s \<Longrightarrow> paired (backspace s)"
  by (simp add: paired_def backspace_def clearAll_def)

lemma paired_pressOperator: "paired s \<Longrightarrow> paired (pressOperator opSymbol s)"
  by (simp add: paired_def pressOperator_def Let_def split: option.splits)

lemma paired_pressEquals: "paired s \<Longrightarrow> paired (pressEquals s)"
  by (simp add: paired_def pressEquals_def Let_def split: option.splits)

lemma paired_step: "paired s \<Longrightarrow> paired (step c s)"
  by (cases c)
     (simp_all add: step_def exec_def paired_updateDisplay paired_inputDigit paired_clearAll
        paired_toggleNegate paired_percent paired_backspace paired_pressOperator
        paired_pressEquals)

lemma run_snoc: "run (cs @ [c]) s = step c (run cs s)"
  by (simp add: run_def)

lemma paired_run: "paired s \<Longrightarrow> paired (run cs s)"
  by (induction cs rule: rev_induct) (simp_all add: run_def paired_step)

lemma paired_initial: "paired initial"
  by (simp add: paired_def initial_def)

text \<open>
  C10. In every state reached from the initial state by any sequence of commands, the
  accumulator is \<open>null\<close> exactly when the pending operator is \<open>null\<close>. So whenever an operator
  press finds an accumulator to fold into, a pending operator is there too.
\<close>

theorem accumulator_null_iff_pendingOp_null:
  "(accumulator (run cs initial) = None) = (pendingOp (run cs initial) = None)"
  using paired_run [OF paired_initial, of cs] by (simp add: paired_def)

theorem accumulator_null_iff_pendingOp_null_witness:
  "pendingOp (run [Digit CHR ''5'', Operator Plus] initial) = Some ''+''
   \<and> accumulator (run [Digit CHR ''5'', Operator Plus] initial) \<noteq> None"
proof -
  have "pendingOp (run [Digit CHR ''5'', Operator Plus] initial) = Some ''+''"
    by code_simp
  with accumulator_null_iff_pendingOp_null [of "[Digit CHR ''5'', Operator Plus]"]
  show ?thesis by simp
qed

text \<open>
  C9. \<open>updateDisplay\<close> never changes the accumulator, the pending operator or the equals flag.
  When the stored string is longer than \<open>MAX_DIGITS\<close> and denotes a finite number, the state
  is left as it is and only the text shown is re-derived (15 significant digits). The
  stored string changes only when it is longer than \<open>MAX_DIGITS\<close> and denotes no finite
  number, and then it becomes the \<open>ERROR\<close> sentinel.
\<close>

theorem updateDisplay_frame:
  "accumulator (fst (updateDisplay s)) = accumulator s
   \<and> pendingOp (fst (updateDisplay s)) = pendingOp s
   \<and> lastPressedEquals (fst (updateDisplay s)) = lastPressedEquals s
   \<and> (currentInput s \<noteq> ''ERROR'' \<and> MAX_DIGITS < length (currentInput s)
        \<and> js_isFinite (js_Number (currentInput s))
       \<longrightarrow> updateDisplay s =
             (s, js_String (js_parseFloat (js_toPrecision (js_Number (currentInput s)) 15))))
   \<and> (currentInput (fst (updateDisplay s)) \<noteq> currentInput s
       \<longrightarrow> MAX_DIGITS < length (currentInput s)
           \<and> \<not> js_isFinite (js_Number (currentInput s))
           \<and> currentInput (fst (updateDisplay s)) = ''ERROR'')
   \<and> (currentInput s \<noteq> ''ERROR'' \<and> MAX_DIGITS < length (currentInput s)
        \<and> \<not> js_isFinite (js_Number (currentInput s))
       \<longrightarrow> updateDisplay s = (s\<lparr>currentInput := ''ERROR''\<rparr>, ''Error''))"
  by (simp add: updateDisplay_def Let_def MAX_DIGITS_def)

theorem updateDisplay_frame_witness:
  "updateDisplay (initial\<lparr>currentInput := ''9999999800000000''\<rparr>)
     = (initial\<lparr>currentInput := ''9999999800000000''\<rparr>, ''9999999800000000'')
   \<and> updateDisplay (initial\<lparr>currentInput := ''5e-7.11111111111''\<rparr>)
     = (initial\<lparr>currentInput := ''ERROR''\<rparr>, ''Error'')"
proof -
  let ?s1 = "initial\<lparr>currentInput := ''9999999800000000''\<rparr>"
  let ?s2 = "initial\<lparr>currentInput := ''5e-7.11111111111''\<rparr>"
  have a: "currentInput ?s1 \<noteq> ''ERROR'' \<and> MAX_DIGITS < length (currentInput ?s1)
      \<and> js_isFinite (js_Number (currentInput ?s1))"
    by code_simp
  have b: "js_String (js_parseFloat (js_toPrecision (js_Number (currentInput ?s1)) 15))
      = ''9999999800000000''"
    by code_simp
  have c: "currentInput ?s2 \<noteq> ''ERROR'' \<and> MAX_DIGITS < length (currentInput ?s2)
      \<and> \<not> js_isFinite (js_Number (currentInput ?s2))"
    by code_simp
  have d: "?s2\<lparr>currentInput := ''ERROR''\<rparr> = initial\<lparr>currentInput := ''ERROR''\<rparr>"
    by simp
  have f1: "updateDisplay ?s1 =
      (?s1, js_String (js_parseFloat (js_toPrecision (js_Number (currentInput ?s1)) 15)))"
    using a updateDisplay_frame [of ?s1] by blast
  have f2: "updateDisplay ?s2 = (?s2\<lparr>currentInput := ''ERROR''\<rparr>, ''Error'')"
    using c updateDisplay_frame [of ?s2] by blast
  show ?thesis
    unfolding f1 f2 b d by (rule conjI) (rule refl)+
qed

section \<open>Division by zero in \<open>compute\<close>\<close>

text \<open>
  C7 (as amended). For a zero divisor and every finite \<open>a\<close>, zero included,
  \<open>compute a b '/'\<close> is \<open>null\<close>, the divide-by-zero signal. When \<open>a\<close> is not finite the
  guard on the first line of \<open>compute\<close> answers first and the result is \<open>NaN\<close>.
\<close>

theorem compute_divide_by_zero:
  "js_is_zero b \<Longrightarrow>
     (js_isFinite a \<longrightarrow> compute a b ''/'' = None)
     \<and> (\<not> js_isFinite a \<longrightarrow> compute a b ''/'' = Some NaN)"
  by (cases b) (simp_all add: compute_def)

theorem compute_divide_by_zero_witness:
  "compute (num_of_int 0) (num_of_int 0) ''/'' = None
   \<and> compute (num_of_int 7) (num_of_int 0) ''/'' = None
   \<and> compute NegInf (num_of_int 0) ''/'' = Some NaN"
proof -
  have z: "js_is_zero (num_of_int 0)" by code_simp
  have f0: "js_isFinite (num_of_int 0)" by code_simp
  have f7: "js_isFinite (num_of_int 7)" by code_simp
  have n: "\<not> js_isFinite NegInf" by simp
  from compute_divide_by_zero [OF z, of "num_of_int 0"] compute_divide_by_zero [OF z, of "num_of_int 7"]
    compute_divide_by_zero [OF z, of NegInf] f0 f7 n
  show ?thesis by blast
qed

text \<open>The claim as stated fails for an accumulator that has overflowed: \<open>Infinity / 0\<close> and
  \<open>NaN / 0\<close> give \<open>NaN\<close>, not the signal.\<close>

theorem compute_non_finite_by_zero:
  "compute PosInf (num_of_int 0) ''/'' = Some NaN \<and> compute NaN (num_of_int 0) ''/'' = Some NaN"
  by (simp add: compute_def)

section \<open>Equals pressed again\<close>

lemma settled_pressEquals: "settled (pressEquals s)"
  by (simp add: settled_def pressEquals_def Let_def updateDisplay_currentInput
      split: option.splits)

lemma settled_updateDisplay: "settled s \<Longrightarrow> settled (fst (updateDisplay s))"
  by (auto simp: settled_def updateDisplay_currentInput)

lemma pressEquals_settled: "settled s \<Longrightarrow> pressEquals s = s"
  by (cases s) (auto simp: settled_def pressEquals_def)

lemma pressEquals_no_pending:
  "currentInput s \<noteq> ''ERROR'' \<Longrightarrow> pendingOp s = None \<Longrightarrow>
     pressEquals s = s\<lparr>lastPressedEquals := True\<rparr>"
  by (simp add: pressEquals_def)

lemma exec_Equals_again: "exec Equals (step Equals s) = exec Equals s"
proof -
  have "settled (step Equals s)"
    by (simp add: step_def exec_def settled_updateDisplay settled_pressEquals)
  then have "pressEquals (step Equals s) = step Equals s"
    by (rule pressEquals_settled)
  then show ?thesis
    by (simp add: exec_def step_def updateDisplay_idem)
qed

lemma step_Equals_again: "step Equals (step Equals s) = step Equals s"
  using exec_Equals_again [of s] by (simp add: step_def)

lemma run_Equals_again: "run (replicate n Equals) (step Equals s) = step Equals s"
  by (induction n) (simp_all add: run_def step_Equals_again)

text \<open>
  C8. After an equals press that evaluated a pending operation without error, no operator
  is pending; a further equals press only sets the flag, which is already set; and any
  number of further equals presses leave the state and the displayed text as they were.
\<close>

theorem equals_repeated:
  assumes "currentInput s \<noteq> ''ERROR''" and "pendingOp s \<noteq> None"
    and "currentInput (step Equals s) \<noteq> ''ERROR''"
  shows "pendingOp (step Equals s) = None
    \<and> pressEquals (step Equals s) = (step Equals s)\<lparr>lastPressedEquals := True\<rparr>
    \<and> run (replicate n Equals) (step Equals s) = step Equals s
    \<and> exec Equals (run (replicate n Equals) (step Equals s)) = exec Equals s"
proof -
  have "settled (step Equals s)"
    by (simp add: step_def exec_def settled_updateDisplay settled_pressEquals)
  with assms(3) have p: "pendingOp (step Equals s) = None"
    by (simp add: settled_def)
  from assms(3) p have "pressEquals (step Equals s) = (step Equals s)\<lparr>lastPressedEquals := True\<rparr>"
    by (rule pressEquals_no_pending)
  with p show ?thesis
    by (simp add: run_Equals_again exec_Equals_again)
qed

theorem equals_repeated_witness:
  "exec Equals (run (replicate 3 Equals)
      (step Equals (run [Digit CHR ''5'', Operator Plus, Digit CHR ''3''] initial)))
     = (\<lparr>currentInput = ''8'', accumulator = None, pendingOp = None,
         lastPressedEquals = True\<rparr>, ''8'')"
proof -
  let ?s = "run [Digit CHR ''5'', Operator Plus, Digit CHR ''3''] initial"
  have h1: "currentInput ?s \<noteq> ''ERROR''" by code_simp
  have h2: "pendingOp ?s \<noteq> None" by code_simp
  have h3: "currentInput (step Equals ?s) \<noteq> ''ERROR''" by code_simp
  have e: "exec Equals ?s = (\<lparr>currentInput = ''8'', accumulator = None, pendingOp = None,
         lastPressedEquals = True\<rparr>, ''8'')" by code_simp
  have r: "exec Equals (run (replicate 3 Equals) (step Equals ?s)) = exec Equals ?s"
    using equals_repeated [OF h1 h2 h3, of 3] by blast
  show ?thesis unfolding r by (rule e)
qed

section \<open>Transitions into the Error state\<close>

text \<open>
  C3 (as amended). From a state that is not in error: an equals evaluation whose \<open>compute\<close>
  result is the divide-by-zero signal or a number that is not finite, and an operator-press
  fold whose \<open>compute\<close> result is the divide-by-zero signal, put the engine in the Error
  state in that same command, with the sentinel in \<open>currentInput\<close> and accumulator and
  pending operator cleared. An operator-press fold whose result is a number, finite or not,
  stores it in the accumulator and does not enter the Error state.
\<close>

theorem error_transitions:
  assumes "currentInput s \<noteq> ''ERROR''"
  shows
    "(pendingOp s = Some pop
        \<and> r = compute (case accumulator s of None \<Rightarrow> num_of_int 0 | Some a \<Rightarrow> a)
                 (js_Number (currentInput s)) pop
        \<and> (r = None \<or> \<not> js_isFinite (the r))
       \<longrightarrow> exec Equals s =
             (s\<lparr>currentInput := ''ERROR'', accumulator := None, pendingOp := None\<rparr>, ''Error''))
     \<and> (accumulator s = Some acc
        \<and> (\<not> lastPressedEquals s \<or> truthy (pendingOp s))
        \<and> compute acc (js_Number (currentInput s))
              (if truthy (pendingOp s) then the (pendingOp s) else normalize_op opSymbol) = None
       \<longrightarrow> exec (Operator opSymbol) s =
             (s\<lparr>currentInput := ''ERROR'', accumulator := None, pendingOp := None\<rparr>, ''Error''))
     \<and> (accumulator s = Some acc
        \<and> (\<not> lastPressedEquals s \<or> truthy (pendingOp s))
        \<and> compute acc (js_Number (currentInput s))
              (if truthy (pendingOp s) then the (pendingOp s) else normalize_op opSymbol) = Some v
       \<longrightarrow> exec (Operator opSymbol) s =
             (s\<lparr>accumulator := Some v, pendingOp := Some (normalize_op opSymbol),
                 currentInput := ''0'', lastPressedEquals := False\<rparr>, ''0''))"
proof (intro conjI impI)
  assume a: "pendingOp s = Some pop
        \<and> r = compute (case accumulator s of None \<Rightarrow> num_of_int 0 | Some a \<Rightarrow> a)
                 (js_Number (currentInput s)) pop
        \<and> (r = None \<or> \<not> js_isFinite (the r))"
  with assms have "pressEquals s =
      s\<lparr>currentInput := ''ERROR'', accumulator := None, pendingOp := None\<rparr>"
    by (auto simp: pressEquals_def Let_def)
  then show "exec Equals s =
      (s\<lparr>currentInput := ''ERROR'', accumulator := None, pendingOp := None\<rparr>, ''Error'')"
    by (simp add: exec_def)
next
  assume a: "accumulator s = Some acc
        \<and> (\<not> lastPressedEquals s \<or> truthy (pendingOp s))
        \<and> compute acc (js_Number (currentInput s))
              (if truthy (pendingOp s) then the (pendingOp s) else normalize_op opSymbol) = None"
  with assms have "pressOperator opSymbol s =
      s\<lparr>currentInput := ''ERROR'', accumulator := None, pendingOp := None\<rparr>"
    by (auto simp: pressOperator_def Let_def)
  then show "exec (Operator opSymbol) s =
      (s\<lparr>currentInput := ''ERROR'', accumulator := None, pendingOp := None\<rparr>, ''Error'')"
    by (simp add: exec_def)
next
  assume a: "accumulator s = Some acc
        \<and> (\<not> lastPressedEquals s \<or> truthy (pendingOp s))
        \<and> compute acc (js_Number (currentInput s))
              (if truthy (pendingOp s) then the (pendingOp s) else normalize_op opSymbol) = Some v"
  with assms have "pressOperator opSymbol s =
      s\<lparr>accumulator := Some v, pendingOp := Some (normalize_op opSymbol),
        currentInput := ''0'', lastPressedEquals := False\<rparr>"
    by (auto simp: pressOperator_def Let_def)
  then show "exec (Operator opSymbol) s =
      (s\<lparr>accumulator := Some v, pendingOp := Some (normalize_op opSymbol),
         currentInput := ''0'', lastPressedEquals := False\<rparr>, ''0'')"
    by (simp add: exec_def updateDisplay_def MAX_DIGITS_def Let_def)
qed

theorem error_transitions_witness:
  "exec Equals (run [Digit CHR ''5'', Operator Divide, Digit CHR ''0''] initial)
     = (\<lparr>currentInput = ''ERROR'', accumulator = None, pendingOp = None,
         lastPressedEquals = False\<rparr>, ''Error'')
   \<and> exec (Operator Plus) (run [Digit CHR ''5'', Operator Divide, Digit CHR ''0''] initial)
     = (\<lparr>currentInput = ''ERROR'', accumulator = None, pendingOp = None,
         lastPressedEquals = False\<rparr>, ''Error'')
   \<and> exec (Operator Plus) (run [Digit CHR ''5'', Operator Times, Digit CHR ''3''] initial)
     = (\<lparr>currentInput = ''0'', accumulator = Some (num_of_int 15), pendingOp = Some ''+'',
         lastPressedEquals = False\<rparr>, ''0'')"
proof -
  let ?s = "run [Digit CHR ''5'', Operator Divide, Digit CHR ''0''] initial"
  let ?t = "run [Digit CHR ''5'', Operator Times, Digit CHR ''3''] initial"
  have s: "?s = \<lparr>currentInput = ''0'', accumulator = Some (num_of_int 5), pendingOp = Some ''/'',
         lastPressedEquals = False\<rparr>"
    by code_simp
  have t: "?t = \<lparr>currentInput = ''3'', accumulator = Some (num_of_int 5), pendingOp = Some ''*'',
         lastPressedEquals = False\<rparr>"
    by code_simp
  have h: "currentInput ?s \<noteq> ''ERROR''" "currentInput ?t \<noteq> ''ERROR''"
    by (simp_all add: s t)
  have e1: "pendingOp ?s = Some ''/''
        \<and> None = compute (case accumulator ?s of None \<Rightarrow> num_of_int 0 | Some a \<Rightarrow> a)
                 (js_Number (currentInput ?s)) ''/''
        \<and> (None = None \<or> \<not> js_isFinite (the None))"
    by code_simp
  have e2: "accumulator ?s = Some (num_of_int 5)
        \<and> (\<not> lastPressedEquals ?s \<or> truthy (pendingOp ?s))
        \<and> compute (num_of_int 5) (js_Number (currentInput ?s))
              (if truthy (pendingOp ?s) then the (pendingOp ?s) else normalize_op Plus) = None"
    by code_simp
  have e3: "accumulator ?t = Some (num_of_int 5)
        \<and> (\<not> lastPressedEquals ?t \<or> truthy (pendingOp ?t))
        \<and> compute (num_of_int 5) (js_Number (currentInput ?t))
              (if truthy (pendingOp ?t) then the (pendingOp ?t) else normalize_op Plus)
            = Some (num_of_int 15)"
    by code_simp
  have n: "normalize_op Plus = ''+''"
    by (simp add: normalize_op_def)
  have r1: "exec Equals ?s =
      (?s\<lparr>currentInput := ''ERROR'', accumulator := None, pendingOp := None\<rparr>, ''Error'')"
    using error_transitions [OF h(1), of "''/''" None] e1 by blast
  have r2: "exec (Operator Plus) ?s =
      (?s\<lparr>currentInput := ''ERROR'', accumulator := None, pendingOp := None\<rparr>, ''Error'')"
    using error_transitions [OF h(1), of _ _ "num_of_int 5" Plus] e2 by blast
  have r3: "exec (Operator Plus) ?t =
      (?t\<lparr>accumulator := Some (num_of_int 15), pendingOp := Some (normalize_op Plus),
          currentInput := ''0'', lastPressedEquals := False\<rparr>, ''0'')"
    using error_transitions [OF h(2), of _ _ "num_of_int 5" Plus "num_of_int 15"] e3 by blast
  show ?thesis
    unfolding r1 r2 r3 n unfolding s t by simp
qed

text \<open>
  The claim as stated fails for the fold of an operator press. Twenty-one operands of fifteen
  nines, each followed by the multiplication key: the last press multiplies a finite
  accumulator by a finite operand, \<open>compute\<close> returns \<open>Infinity\<close>, and the engine stores it and
  goes on, showing \<open>0\<close>, with the operator still pending.
\<close>

theorem overflowing_fold_is_stored:
  "run (concat (replicate 20 (digits ''999999999999999'' @ [Operator Times]))
          @ digits ''999999999999999'') initial
     = \<lparr>currentInput = ''999999999999999'', accumulator = Some (Fin 6724873095247126 944),
        pendingOp = Some ''*'', lastPressedEquals = False\<rparr>
   \<and> compute (Fin 6724873095247126 944) (js_Number ''999999999999999'') ''*'' = Some PosInf
   \<and> exec (Operator Times)
        \<lparr>currentInput = ''999999999999999'', accumulator = Some (Fin 6724873095247126 944),
          pendingOp = Some ''*'', lastPressedEquals = False\<rparr>
     = (\<lparr>currentInput = ''0'', accumulator = Some PosInf, pendingOp = Some ''*'',
         lastPressedEquals = False\<rparr>, ''0'')"
  by code_simp

section \<open>The digit bound\<close>

lemma digit_count_Nil [simp]: "digit_count [] = 0"
  by (simp add: digit_count_def)

lemma digit_count_Cons [simp]:
  "digit_count (c # s) = (if is_digit c then 1 else 0) + digit_count s"
  by (simp add: digit_count_def)

lemma digit_count_append [simp]: "digit_count (xs @ ys) = digit_count xs + digit_count ys"
  by (simp add: digit_count_def)

lemma is_digit_point [simp]: "\<not> is_digit CHR ''.''"
  by (simp add: is_digit_def)

lemma is_digit_minus [simp]: "\<not> is_digit CHR ''-''"
  by (simp add: is_digit_def)

lemma is_digit_zero [simp]: "is_digit CHR ''0''"
  by (simp add: is_digit_def)

lemma digit_count_remove1_point: "digit_count (remove1 CHR ''.'' s) = digit_count s"
  by (induction s) auto

lemma digit_count_le_length: "digit_count s \<le> length s"
  by (simp add: digit_count_def)

lemma digit_count_le_without_point: "digit_count s \<le> length (remove1 CHR ''.'' s)"
  using digit_count_le_length [of "remove1 CHR ''.'' s"] by (simp add: digit_count_remove1_point)

lemma digit_count_butlast: "digit_count (butlast s) \<le> digit_count s"
  by (induction s) auto

lemma digit_count_drop: "digit_count (drop n s) \<le> digit_count s"
proof -
  have "digit_count (take n s @ drop n s) = digit_count s" by simp
  then show ?thesis unfolding digit_count_append by linarith
qed

lemma within_bound_updateDisplay: "within_bound s \<Longrightarrow> within_bound (fst (updateDisplay s))"
  by (simp add: within_bound_def updateDisplay_currentInput is_digit_def)

lemma within_bound_inputDigit_point: "within_bound s \<Longrightarrow> within_bound (inputDigit ''.'' s)"
  by (simp add: within_bound_def inputDigit_def Let_def MAX_DIGITS_def)

lemma within_bound_inputDigit_char:
  assumes "within_bound s"
  shows "within_bound (inputDigit [d] s)"
proof -
  have app: "digit_count t < 15" if "\<not> 15 \<le> length (remove1 CHR ''.'' t)" for t
    using that digit_count_le_without_point [of t] by simp
  from assms app show ?thesis
    by (auto simp: within_bound_def inputDigit_def Let_def MAX_DIGITS_def dest: app)
qed

lemma within_bound_clearAll: "within_bound (clearAll s)"
  by (simp add: within_bound_def clearAll_def MAX_DIGITS_def)

lemma within_bound_toggleNegate: "within_bound s \<Longrightarrow> within_bound (toggleNegate s)"
  using digit_count_drop [of 1 "currentInput s"]
  by (simp add: within_bound_def toggleNegate_def MAX_DIGITS_def)

lemma within_bound_backspace: "within_bound s \<Longrightarrow> within_bound (backspace s)"
  using digit_count_butlast [of "currentInput s"]
  by (simp add: within_bound_def backspace_def clearAll_def MAX_DIGITS_def)

lemma within_bound_pressOperator: "within_bound s \<Longrightarrow> within_bound (pressOperator opSymbol s)"
  by (simp add: within_bound_def pressOperator_def Let_def MAX_DIGITS_def is_digit_def
      split: option.splits)

lemma within_bound_step:
  "within_bound s \<Longrightarrow> c \<noteq> Percent \<Longrightarrow> c \<noteq> Equals \<Longrightarrow> within_bound (step c s)"
  by (cases c)
     (simp_all add: step_def exec_def within_bound_updateDisplay within_bound_inputDigit_point
        within_bound_inputDigit_char within_bound_clearAll within_bound_toggleNegate
        within_bound_backspace within_bound_pressOperator)

lemma run_Nil: "run [] s = s"
  by (simp add: run_def)

lemma within_bound_run:
  "within_bound s \<Longrightarrow> Percent \<notin> set cs \<Longrightarrow> Equals \<notin> set cs \<Longrightarrow> within_bound (run cs s)"
  by (induction cs rule: rev_induct) (auto simp: run_snoc run_Nil intro!: within_bound_step)

lemma within_bound_initial: "within_bound initial"
  by (simp add: within_bound_def initial_def MAX_DIGITS_def)

text \<open>
  C5 (as amended). In every state reached from the initial state by a sequence of commands
  without percent and equals, the digit count of \<open>currentInput\<close> (sign and point left out) is
  at most \<open>MAX_DIGITS\<close>: the bound is enforced where digits are typed. Percent and equals
  store the string of a computed number, which the bound does not limit.
\<close>

theorem digit_bound_of_typed_input:
  "Percent \<notin> set cs \<Longrightarrow> Equals \<notin> set cs \<Longrightarrow>
     digit_count (currentInput (run cs initial)) \<le> MAX_DIGITS"
  using within_bound_run [OF within_bound_initial, of cs] by (simp add: within_bound_def)

theorem digit_bound_of_typed_input_witness:
  "currentInput (run (digits ''12345678901234567'' @ [Negate, Operator Plus]
       @ digits ''0.1234567890123456789'' @ [Backspace]) initial) = ''0.1234567890123''
   \<and> digit_count ''0.1234567890123'' \<le> MAX_DIGITS"
proof -
  let ?cs = "digits ''12345678901234567'' @ [Negate, Operator Plus]
       @ digits ''0.1234567890123456789'' @ [Backspace]"
  have p: "Percent \<notin> set ?cs" by code_simp
  have e: "Equals \<notin> set ?cs" by code_simp
  have c: "currentInput (run ?cs initial) = ''0.1234567890123''" by code_simp
  from digit_bound_of_typed_input [OF p e] c show ?thesis by simp
qed

text \<open>
  The claim as stated fails for both commands it names. \<open>1.1 %\<close> stores the string of
  \<open>1.1 / 100\<close>, which has 19 digits, and \<open>99999999 \<times> 99999999 =\<close> stores 16 digits.
\<close>

theorem percent_and_equals_exceed_digit_bound:
  "currentInput (run (digits ''1.1'' @ [Percent]) initial) = ''0.011000000000000001''
   \<and> digit_count ''0.011000000000000001'' = 19
   \<and> currentInput (run (digits ''99999999'' @ [Operator Times] @ digits ''99999999'' @ [Equals])
        initial) = ''9999999800000000''
   \<and> digit_count ''9999999800000000'' = 16
   \<and> MAX_DIGITS = 15"
  by code_simp

section \<open>Chain evaluation\<close>

text \<open>
  C1. From the initial state the keys \<open>5 + 3 \<times> 2 =\<close> leave \<open>16\<close> in \<open>currentInput\<close> and on the
  display, not \<open>11\<close>: the press of \<open>\<times>\<close> folds the pending addition at once, so the
  accumulator is 8 before the 2 is typed.
\<close>

theorem chain_evaluation:
  "run [Digit CHR ''5'', Operator Plus, Digit CHR ''3'', Operator Times] initial
     = \<lparr>currentInput = ''0'', accumulator = Some (num_of_int 8), pendingOp = Some ''*'',
        lastPressedEquals = False\<rparr>
   \<and> exec Equals (run [Digit CHR ''5'', Operator Plus, Digit CHR ''3'', Operator Times,
                        Digit CHR ''2''] initial)
     = (\<lparr>currentInput = ''16'', accumulator = None, pendingOp = None,
         lastPressedEquals = True\<rparr>, ''16'')
   \<and> currentInput (run [Digit CHR ''5'', Operator Plus, Digit CHR ''3'', Operator Times,
                        Digit CHR ''2'', Equals] initial) = ''16''"
  by code_simp

section \<open>The Error state\<close>

text \<open>In the Error state every command but clear and backspace leaves the state as it is
  and shows \<open>Error\<close>: each of their functions returns at once on the sentinel.\<close>

lemma error_absorbs_guarded_commands:
  "currentInput s = ''ERROR'' \<Longrightarrow> c \<noteq> Clear \<Longrightarrow> c \<noteq> Backspace \<Longrightarrow> exec c s = (s, ''Error'')"
  by (cases c)
     (simp_all add: exec_def inputDigit_def pressOperator_def pressEquals_def toggleNegate_def
        percent_def)

text \<open>
  C2. The \<open>Backspace\<close> branch of the key handler has no test for the sentinel. After
  \<open>5 \<div> 0 =\<close> the engine is in the Error state; backspace then cuts the sentinel to \<open>ERRO\<close>,
  which is shown as it is, and the engine accepts input again.
\<close>

theorem backspace_leaves_error_state:
  "run [Digit CHR ''5'', Operator Divide, Digit CHR ''0'', Equals] initial
     = \<lparr>currentInput = ''ERROR'', accumulator = None, pendingOp = None,
        lastPressedEquals = False\<rparr>
   \<and> exec Backspace \<lparr>currentInput = ''ERROR'', accumulator = None, pendingOp = None,
        lastPressedEquals = False\<rparr>
     = (\<lparr>currentInput = ''ERRO'', accumulator = None, pendingOp = None,
         lastPressedEquals = False\<rparr>, ''ERRO'')
   \<and> exec (Digit CHR ''7'') \<lparr>currentInput = ''ERRO'', accumulator = None, pendingOp = None,
        lastPressedEquals = False\<rparr>
     = (\<lparr>currentInput = ''ERRO7'', accumulator = None, pendingOp = None,
         lastPressedEquals = False\<rparr>, ''ERRO7'')"
  by code_simp

text \<open>
  C4. The keys \<open>5\<close>, negate, backspace leave the bare sign \<open>-\<close> in \<open>currentInput\<close>: it is not
  the sentinel and \<open>Number\<close> of it is \<open>NaN\<close>. A further negate leaves the empty string.
\<close>

theorem backspace_leaves_bare_sign:
  "exec Backspace (run [Digit CHR ''5'', Negate] initial)
     = (\<lparr>currentInput = ''-'', accumulator = None, pendingOp = None,
         lastPressedEquals = False\<rparr>, ''-'')
   \<and> js_Number ''-'' = NaN
   \<and> \<not> js_isFinite (js_Number ''-'')
   \<and> currentInput (run [Digit CHR ''5'', Negate, Backspace, Negate] initial) = []"
  by code_simp

text \<open>
  C6. Two paths enter the Error state without clearing accumulator and pending operator.
  \<open>percent\<close> sets the sentinel alone when \<open>currentInput\<close> is not a finite number: after
  \<open>5 + 0.00005 %\<close> the string is \<open>5e-7\<close>, a decimal point makes it \<open>5e-7.\<close>, and a second
  percent gives the Error state with accumulator 5 and \<open>+\<close> pending. \<open>updateDisplay\<close> does the
  same when the string is longer than \<open>MAX_DIGITS\<close>: after \<open>5e-7.\<close> eleven more digits.
\<close>

theorem error_entered_without_clearing:
  "run ([Digit CHR ''5'', Operator Plus] @ digits ''0.00005'' @ [Percent, DecimalPoint]) initial
     = \<lparr>currentInput = ''5e-7.'', accumulator = Some (num_of_int 5), pendingOp = Some ''+'',
        lastPressedEquals = False\<rparr>
   \<and> percent \<lparr>currentInput = ''5e-7.'', accumulator = Some (num_of_int 5),
        pendingOp = Some ''+'', lastPressedEquals = False\<rparr>
     = \<lparr>currentInput = ''ERROR'', accumulator = Some (num_of_int 5), pendingOp = Some ''+'',
        lastPressedEquals = False\<rparr>
   \<and> run (digits ''11111111111'')
        \<lparr>currentInput = ''5e-7.'', accumulator = Some (num_of_int 5),
          pendingOp = Some ''+'', lastPressedEquals = False\<rparr>
     = \<lparr>currentInput = ''ERROR'', accumulator = Some (num_of_int 5), pendingOp = Some ''+'',
        lastPressedEquals = False\<rparr>"
  by code_simp

end
